theory Spec2Isabelle
  imports Main
begin

section \<open>Values and exceptions\<close>

text \<open>
  The script \<^verbatim>\<open>python_api_project.py\<close> fetches one page of a repository search,
  turns the answer into a pandas DataFrame and summarises it. The values it handles
  are parsed JSON: \<^verbatim>\<open>response.json()\<close> yields dicts, lists, strings, numbers,
  booleans and \<^verbatim>\<open>None\<close>. A dict is the association list of its items, one
  item per key; a JSON float is kept as its literal, since no function here computes
  with one. A Python string is held as the bytes of its UTF-8 encoding, which keeps
  equality and concatenation; \<open>utf8_chars\<close> splits it into its characters and
  \<open>utf8_decode\<close> reads their code points.
\<close>

datatype json =
    JNull
  | JBool bool
  | JInt int
  | JFloat string
  | JStr string
  | JArr "json list"
  | JObj "(string \<times> json) list"

text \<open>
  The exceptions the modelled statements can raise. \<open>Exception\<close> is the one the script
  raises itself (line 16), with its message; the others come from the interpreter and the
  libraries: \<open>KeyError\<close> with the missing key, \<open>TypeError\<close> for subscripting or
  iterating a value that does not support it and for \<^verbatim>\<open>strptime\<close> on a non-string,
  \<open>ValueError\<close> for a timestamp \<^verbatim>\<open>strptime\<close> rejects, \<open>JSONDecodeError\<close> for a
  body that is not JSON, \<open>ConnectionError\<close> for a request that gets no response.
\<close>

datatype py_error =
    Exception string
  | KeyError string
  | TypeError
  | ValueError
  | JSONDecodeError
  | ConnectionError

text \<open>Sequencing of statements that may raise: the first exception ends the evaluation.\<close>

definition and_then :: "py_error + 'a \<Rightarrow> ('a \<Rightarrow> py_error + 'b) \<Rightarrow> py_error + 'b" where
  "and_then r f = (case r of Inl e \<Rightarrow> Inl e | Inr v \<Rightarrow> f v)"

text \<open>
  \<^verbatim>\<open>obj[key]\<close> with a string key: a dict looks the key up and raises \<open>KeyError\<close> when
  it is absent; a list or a string wants an integer index, and \<^verbatim>\<open>None\<close>, booleans
  and numbers are not subscriptable, all \<open>TypeError\<close>.
\<close>

fun getitem :: "json \<Rightarrow> string \<Rightarrow> py_error + json" where
  "getitem (JObj kvs) k = (case map_of kvs k of None \<Rightarrow> Inl (KeyError k) | Some v \<Rightarrow> Inr v)"
| "getitem JNull k = Inl TypeError"
| "getitem (JBool b) k = Inl TypeError"
| "getitem (JInt i) k = Inl TypeError"
| "getitem (JFloat f) k = Inl TypeError"
| "getitem (JStr s) k = Inl TypeError"
| "getitem (JArr xs) k = Inl TypeError"

text \<open>
  The characters of a string: in UTF-8 a character is a leading byte and the continuation
  bytes (\<open>0x80\<close> to \<open>0xBF\<close>) after it, and its code point is read from the low bits
  of the leading byte and six bits of each continuation byte.
\<close>

definition is_continuation :: "char \<Rightarrow> bool" where
  "is_continuation c = (128 \<le> (of_char c :: nat) \<and> (of_char c :: nat) < 192)"

function utf8_chars :: "string \<Rightarrow> string list" where
  "utf8_chars [] = []"
| "utf8_chars (c # cs) =
     (c # takeWhile is_continuation cs) # utf8_chars (dropWhile is_continuation cs)"
  by pat_completeness auto
termination
  by (relation "measure length") (auto simp: length_dropWhile_le less_Suc_eq_le)

definition code_point :: "string \<Rightarrow> nat" where
  "code_point ch =
     (case ch of
        [] \<Rightarrow> 0
      | c # cs \<Rightarrow>
          foldl (\<lambda>a x. a * 64 + of_char x mod 64)
            (if of_char c < (192::nat) then of_char c
             else if of_char c < (224::nat) then of_char c mod 32
             else if of_char c < (240::nat) then of_char c mod 16
             else of_char c mod 8) cs)"

definition utf8_decode :: "string \<Rightarrow> nat list" where
  "utf8_decode s = map code_point (utf8_chars s)"

text \<open>
  \<^verbatim>\<open>for repo in obj\<close>: a list yields its elements, a dict its keys, a string its
  characters as one-character strings; anything else is not iterable.
\<close>

fun py_iter :: "json \<Rightarrow> py_error + json list" where
  "py_iter (JArr xs) = Inr xs"
| "py_iter (JObj kvs) = Inr (map (\<lambda>kv. JStr (fst kv)) kvs)"
| "py_iter (JStr s) = Inr (map JStr (utf8_chars s))"
| "py_iter JNull = Inl TypeError"
| "py_iter (JBool b) = Inl TypeError"
| "py_iter (JInt i) = Inl TypeError"
| "py_iter (JFloat f) = Inl TypeError"

section \<open>The timestamp: \<^verbatim>\<open>datetime.strptime(s, '%Y-%m-%dT%H:%M:%SZ').year\<close>\<close>

text \<open>
  \<^verbatim>\<open>strptime\<close> compiles the format into a regular expression, matched at the start of
  the string ignoring case, and rejects a match that leaves characters over:
  \<^item> \<^verbatim>\<open>%Y\<close> is \<^verbatim>\<open>\d\d\d\d\<close>;
  \<^item> \<^verbatim>\<open>%m\<close> is \<^verbatim>\<open>1[0-2]|0[1-9]|[1-9]\<close>;
  \<^item> \<^verbatim>\<open>%d\<close> is \<^verbatim>\<open>3[0-1]|[1-2]\d|0[1-9]|[1-9]| [1-9]\<close>;
  \<^item> \<^verbatim>\<open>%H\<close> is \<^verbatim>\<open>2[0-3]|[0-1]\d|\d\<close>;
  \<^item> \<^verbatim>\<open>%M\<close> is \<^verbatim>\<open>[0-5]\d|\d\<close>;
  \<^item> \<^verbatim>\<open>%S\<close> is \<^verbatim>\<open>6[0-1]|[0-5]\d|\d\<close>;
  \<^item> the other characters of the format stand for themselves, \<^verbatim>\<open>T\<close> and \<^verbatim>\<open>Z\<close>
    in either case.
  A bracketed range holds the ASCII digits it names; \<^verbatim>\<open>\d\<close> holds every decimal digit
  of Unicode. Which code points beyond ASCII those are, and their values, is a table of
  the interpreter and not of the script: it is the parameter \<open>nd\<close> of the model, read
  for code points from 128 only.
\<close>

definition decimal :: "(nat \<Rightarrow> nat option) \<Rightarrow> nat \<Rightarrow> nat option" where
  "decimal nd c =
     (if c < 128 then (if 48 \<le> c \<and> c \<le> 57 then Some (c - 48) else None) else nd c)"

text \<open>A character class: \<^verbatim>\<open>\d\<close>, or one of the listed ASCII characters.\<close>

datatype cls = Digit | OneOf string

definition class_ok :: "(nat \<Rightarrow> nat option) \<Rightarrow> cls \<Rightarrow> nat \<Rightarrow> bool" where
  "class_ok nd k c =
     (case k of Digit \<Rightarrow> decimal nd c \<noteq> None | OneOf cs \<Rightarrow> c \<in> set (map of_char cs))"

text \<open>
  The expression is a sequence of items, each an alternation of sequences of classes
  (a literal character is an item of one alternative). An alternative matches the next
  characters one class each.
\<close>

definition match_seq :: "(nat \<Rightarrow> nat option) \<Rightarrow> cls list \<Rightarrow> nat list \<Rightarrow> (nat list \<times> nat list) option" where
  "match_seq nd a s =
     (if length a \<le> length s \<and> list_all2 (class_ok nd) a (take (length a) s)
      then Some (take (length a) s, drop (length a) s) else None)"

fun first_match :: "'a option list \<Rightarrow> 'a option" where
  "first_match [] = None"
| "first_match (None # rs) = first_match rs"
| "first_match (Some r # rs) = Some r"

text \<open>
  Matching backtracks: the alternatives of an item are tried in the order written, and
  the first one after which the rest of the expression matches is taken. The result is
  the text matched by each item and the characters left over.
\<close>

fun match_items :: "(nat \<Rightarrow> nat option) \<Rightarrow> cls list list list \<Rightarrow> nat list \<Rightarrow> (nat list list \<times> nat list) option" where
  "match_items nd [] s = Some ([], s)"
| "match_items nd (alts # items) s =
     first_match (map (\<lambda>a.
       case match_seq nd a s of
         None \<Rightarrow> None
       | Some (m, r) \<Rightarrow>
           (case match_items nd items r of
              None \<Rightarrow> None
            | Some (ms, r') \<Rightarrow> Some (m # ms, r'))) alts)"

definition timestamp_pattern :: "cls list list list" where
  "timestamp_pattern =
     [[[Digit, Digit, Digit, Digit]],
      [[OneOf ''-'']],
      [[OneOf ''1'', OneOf ''012''], [OneOf ''0'', OneOf ''123456789''], [OneOf ''123456789'']],
      [[OneOf ''-'']],
      [[OneOf ''3'', OneOf ''01''], [OneOf ''12'', Digit], [OneOf ''0'', OneOf ''123456789''],
       [OneOf ''123456789''], [OneOf '' '', OneOf ''123456789'']],
      [[OneOf ''Tt'']],
      [[OneOf ''2'', OneOf ''0123''], [OneOf ''01'', Digit], [Digit]],
      [[OneOf '':'']],
      [[OneOf ''012345'', Digit], [Digit]],
      [[OneOf '':'']],
      [[OneOf ''6'', OneOf ''01''], [OneOf ''012345'', Digit], [Digit]],
      [[OneOf ''Zz'']]]"

text \<open>
  \<^verbatim>\<open>int\<close> of the text a directive matched: the decimal value of its digits, the
  space that \<^verbatim>\<open>%d\<close> admits in front being skipped.
\<close>

definition py_int :: "(nat \<Rightarrow> nat option) \<Rightarrow> nat list \<Rightarrow> nat" where
  "py_int nd m =
     foldl (\<lambda>n c. 10 * n + (case decimal nd c of Some v \<Rightarrow> v | None \<Rightarrow> 0)) 0
       (filter (\<lambda>c. c \<noteq> 32) m)"

definition is_leap :: "nat \<Rightarrow> bool" where
  "is_leap y = (y mod 4 = 0 \<and> (y mod 100 \<noteq> 0 \<or> y mod 400 = 0))"

definition days_in_month :: "nat \<Rightarrow> nat \<Rightarrow> nat" where
  "days_in_month y m =
     (if m = 2 then (if is_leap y then 29 else 28)
      else if m = 4 \<or> m = 6 \<or> m = 9 \<or> m = 11 then 30 else 31)"

text \<open>
  The fields build a \<^verbatim>\<open>datetime\<close>, which wants a year from 1 to 9999, a month from 1
  to 12, a day the month has, an hour below 24, a minute and a second below 60. The
  items 0, 2, 4, 6, 8 and 10 of the match are the year, month, day, hour, minute, second.
\<close>

definition datetime_ok :: "(nat \<Rightarrow> nat option) \<Rightarrow> nat list list \<Rightarrow> bool" where
  "datetime_ok nd ms =
     (1 \<le> py_int nd (ms ! 0) \<and> py_int nd (ms ! 0) \<le> 9999 \<and>
      1 \<le> py_int nd (ms ! 2) \<and> py_int nd (ms ! 2) \<le> 12 \<and>
      1 \<le> py_int nd (ms ! 4) \<and>
      py_int nd (ms ! 4) \<le> days_in_month (py_int nd (ms ! 0)) (py_int nd (ms ! 2)) \<and>
      py_int nd (ms ! 6) \<le> 23 \<and> py_int nd (ms ! 8) \<le> 59 \<and> py_int nd (ms ! 10) \<le> 59)"

text \<open>Every rejection is a \<open>ValueError\<close>; \<open>None\<close> stands for it here.\<close>

definition strptime_year :: "(nat \<Rightarrow> nat option) \<Rightarrow> string \<Rightarrow> int option" where
  "strptime_year nd s =
     (case match_items nd timestamp_pattern (utf8_decode s) of
        None \<Rightarrow> None
      | Some (ms, rest) \<Rightarrow>
          if rest = [] \<and> datetime_ok nd ms then Some (int (py_int nd (ms ! 0))) else None)"

text \<open>The call on a value of the record: a non-string argument is a \<open>TypeError\<close>.\<close>

fun created_year :: "(nat \<Rightarrow> nat option) \<Rightarrow> json \<Rightarrow> py_error + int" where
  "created_year nd (JStr s) =
     (case strptime_year nd s of None \<Rightarrow> Inl ValueError | Some y \<Rightarrow> Inr y)"
| "created_year nd JNull = Inl TypeError"
| "created_year nd (JBool b) = Inl TypeError"
| "created_year nd (JInt i) = Inl TypeError"
| "created_year nd (JFloat f) = Inl TypeError"
| "created_year nd (JArr xs) = Inl TypeError"
| "created_year nd (JObj kvs) = Inl TypeError"

section \<open>\<^verbatim>\<open>process_data\<close>\<close>

text \<open>
  One dict of the list \<^verbatim>\<open>repositories\<close> (lines 23 to 31): its keys are fixed by the
  dict display, so it is a record. The values are whatever the raw record holds, but
  \<open>created_at\<close>, which is the year \<^verbatim>\<open>strptime\<close> returned.
\<close>

record repo_row =
  name :: json
  stars :: json
  forks :: json
  issues :: json
  created_at :: int
  description :: json
  owner :: json

text \<open>
  The dict display evaluates its values in the order written; the first lookup or parse
  that raises ends it.
\<close>

definition make_row :: "(nat \<Rightarrow> nat option) \<Rightarrow> json \<Rightarrow> py_error + repo_row" where
  "make_row nd repo =
     and_then (getitem repo ''name'') (\<lambda>n.
     and_then (getitem repo ''stargazers_count'') (\<lambda>s.
     and_then (getitem repo ''forks_count'') (\<lambda>f.
     and_then (getitem repo ''open_issues_count'') (\<lambda>i.
     and_then (getitem repo ''created_at'') (\<lambda>c.
     and_then (created_year nd c) (\<lambda>y.
     and_then (getitem repo ''description'') (\<lambda>d.
     and_then (getitem repo ''owner'') (\<lambda>ow.
     and_then (getitem ow ''login'') (\<lambda>l.
       Inr \<lparr>name = n, stars = s, forks = f, issues = i, created_at = y,
            description = d, owner = l\<rparr>)))))))))"

text \<open>The loop of lines 22 to 31, appending to \<^verbatim>\<open>repositories\<close>.\<close>

fun collect :: "(nat \<Rightarrow> nat option) \<Rightarrow> json list \<Rightarrow> repo_row list \<Rightarrow> py_error + repo_row list" where
  "collect nd [] repositories = Inr repositories"
| "collect nd (repo # rest) repositories =
     (case make_row nd repo of
        Inl e \<Rightarrow> Inl e
      | Inr row \<Rightarrow> collect nd rest (repositories @ [row]))"

text \<open>
  \<^verbatim>\<open>pd.DataFrame(repositories)\<close>: the rows in the order of the list, labelled by the
  default index 0, 1, 2, \<dots>. The frame's columns are the keys of the dicts, so a frame
  built from the empty list has no column at all.
\<close>

type_synonym dataframe = "(nat \<times> repo_row) list"

definition pd_DataFrame :: "repo_row list \<Rightarrow> dataframe" where
  "pd_DataFrame repositories = enumerate 0 repositories"

definition columns :: "dataframe \<Rightarrow> string list" where
  "columns df =
     (if df = [] then []
      else [''name'', ''stars'', ''forks'', ''issues'', ''created_at'', ''description'', ''owner''])"

definition process_data :: "(nat \<Rightarrow> nat option) \<Rightarrow> json \<Rightarrow> py_error + dataframe" where
  "process_data nd data =
     and_then (getitem data ''items'') (\<lambda>items.
     and_then (py_iter items) (\<lambda>repos.
     and_then (collect nd repos []) (\<lambda>repositories.
       Inr (pd_DataFrame repositories))))"

section \<open>\<^verbatim>\<open>analyze_data\<close>\<close>

text \<open>
  \<^verbatim>\<open>df[k]\<close>: the column named \<open>k\<close>, a \<open>KeyError\<close> when the frame has no such
  column. \<open>cell\<close> reads a row's value in a column.
\<close>

definition cell :: "string \<Rightarrow> repo_row \<Rightarrow> json" where
  "cell k r =
     (if k = ''name'' then name r
      else if k = ''stars'' then stars r
      else if k = ''forks'' then forks r
      else if k = ''issues'' then issues r
      else if k = ''created_at'' then JInt (created_at r)
      else if k = ''description'' then description r
      else owner r)"

definition series :: "dataframe \<Rightarrow> string \<Rightarrow> py_error + json list" where
  "series df k =
     (if k \<in> set (columns df) then Inr (map (\<lambda>ir. cell k (snd ir)) df) else Inl (KeyError k))"

text \<open>
  pandas gives a column whose values are all Python integers from \<open>- 2^63\<close> to
  \<open>2^63 - 1\<close> the dtype \<^verbatim>\<open>int64\<close>: the analysis is modelled for such columns.
  \<open>int64_values\<close> is \<open>None\<close> for a column of any other content (a missing count, a
  string, a float, an integer beyond 64 bits), where pandas chooses another dtype with
  another arithmetic, which this theory does not describe.
\<close>

definition in_int64 :: "int \<Rightarrow> bool" where
  "in_int64 i = (- (2 ^ 63) \<le> i \<and> i < 2 ^ 63)"

fun int64_cell :: "json \<Rightarrow> int option" where
  "int64_cell (JInt i) = (if in_int64 i then Some i else None)"
| "int64_cell JNull = None"
| "int64_cell (JBool b) = None"
| "int64_cell (JFloat f) = None"
| "int64_cell (JStr s) = None"
| "int64_cell (JArr xs) = None"
| "int64_cell (JObj kvs) = None"

fun int64_values :: "json list \<Rightarrow> int list option" where
  "int64_values [] = Some []"
| "int64_values (c # cs) =
     (case int64_cell c of
        None \<Rightarrow> None
      | Some v \<Rightarrow> (case int64_values cs of None \<Rightarrow> None | Some vs \<Rightarrow> Some (v # vs)))"

text \<open>
  \<^verbatim>\<open>Series.sum()\<close> of an \<^verbatim>\<open>int64\<close> column adds in 64-bit two's complement: the
  result is the sum reduced into the \<^verbatim>\<open>int64\<close> range, with no overflow error.
\<close>

definition wrap64 :: "int \<Rightarrow> int" where
  "wrap64 i = (i + 2 ^ 63) mod 2 ^ 64 - 2 ^ 63"

definition series_sum :: "int list \<Rightarrow> int" where
  "series_sum vs = wrap64 (sum_list vs)"

text \<open>
  \<^verbatim>\<open>df.nlargest(n, k)\<close>, with the default \<^verbatim>\<open>keep='first'\<close>: by the library's
  documentation the first \<open>n\<close> rows of the frame ordered by column \<open>k\<close> descending,
  rows of equal value in their order in the frame, each row keeping its index label.
  That is a stable sort on the negated value, then the first \<open>n\<close> rows.
\<close>

fun int_of :: "json \<Rightarrow> int" where
  "int_of (JInt i) = i"
| "int_of JNull = 0"
| "int_of (JBool b) = 0"
| "int_of (JFloat f) = 0"
| "int_of (JStr s) = 0"
| "int_of (JArr xs) = 0"
| "int_of (JObj kvs) = 0"

definition sort_descending :: "string \<Rightarrow> dataframe \<Rightarrow> dataframe" where
  "sort_descending k df = sort_key (\<lambda>ir. - int_of (cell k (snd ir))) df"

definition nlargest :: "nat \<Rightarrow> string \<Rightarrow> dataframe \<Rightarrow> (py_error + dataframe) option" where
  "nlargest n k df =
     (case series df k of
        Inl e \<Rightarrow> Some (Inl e)
      | Inr col \<Rightarrow>
          (case int64_values col of
             None \<Rightarrow> None
           | Some vs \<Rightarrow> Some (Inr (take n (sort_descending k df)))))"

text \<open>
  \<^verbatim>\<open>[['name', k, 'owner']]\<close>: the three columns of each row, under the row's label.
\<close>

record top_row =
  top_name :: json
  top_count :: json
  top_owner :: json

definition select3 :: "string \<Rightarrow> dataframe \<Rightarrow> (nat \<times> top_row) list" where
  "select3 k df =
     map (\<lambda>ir. (fst ir, \<lparr>top_name = cell ''name'' (snd ir), top_count = cell k (snd ir),
                          top_owner = cell ''owner'' (snd ir)\<rparr>)) df"

text \<open>
  The dict \<^verbatim>\<open>summary\<close> of lines 37 to 44, without its two floating-point entries
  \<^verbatim>\<open>average_stars\<close> and \<^verbatim>\<open>average_age\<close>: \<^verbatim>\<open>mean()\<close> of an \<^verbatim>\<open>int64\<close> column
  with a row raises nothing, and its value is a double, which is not modelled.
\<close>

record summary =
  total_repositories :: nat
  total_stars :: int
  most_starred :: "(nat \<times> top_row) list"
  most_forked :: "(nat \<times> top_row) list"

text \<open>
  The entries are evaluated in the order written. \<open>Some (Inl e)\<close> is the exception \<open>e\<close>,
  \<open>Some (Inr s)\<close> the summary returned, \<open>None\<close> a frame whose \<open>stars\<close> or \<open>forks\<close>
  column is not \<^verbatim>\<open>int64\<close>.
\<close>

definition analyze_data :: "dataframe \<Rightarrow> (py_error + summary) option" where
  "analyze_data df =
     (case series df ''stars'' of
        Inl e \<Rightarrow> Some (Inl e)
      | Inr col \<Rightarrow>
          (case int64_values col of
             None \<Rightarrow> None
           | Some vs \<Rightarrow>
               (case nlargest 5 ''stars'' df of
                  None \<Rightarrow> None
                | Some (Inl e) \<Rightarrow> Some (Inl e)
                | Some (Inr by_stars) \<Rightarrow>
                    (case nlargest 5 ''forks'' df of
                       None \<Rightarrow> None
                     | Some (Inl e) \<Rightarrow> Some (Inl e)
                     | Some (Inr by_forks) \<Rightarrow>
                         Some (Inr \<lparr>total_repositories = length df,
                                    total_stars = series_sum vs,
                                    most_starred = select3 ''stars'' by_stars,
                                    most_forked = select3 ''forks'' by_forks\<rparr>)))))"

section \<open>\<^verbatim>\<open>fetch_github_data\<close> and \<^verbatim>\<open>main\<close>\<close>

text \<open>
  The network is the list of the responses the server will give, one per request, and
  the log of the requests sent. \<^verbatim>\<open>requests.get\<close> sends one request and takes the next
  response; with none left it raises \<open>ConnectionError\<close>. A response has its status code
  and its body as \<^verbatim>\<open>response.json()\<close> parses it, \<open>None\<close> for a body that is not JSON.
  \<open>calls\<close> logs the stages \<^verbatim>\<open>main\<close> has entered.
\<close>

record response =
  status_code :: int
  json_body :: "json option"

record request =
  url :: string
  headers :: "(string \<times> string) list"

record world =
  responses :: "response list"
  sent :: "request list"
  calls :: "string list"

definition requests_get :: "string \<Rightarrow> (string \<times> string) list \<Rightarrow> world \<Rightarrow> (py_error + response) \<times> world" where
  "requests_get u hs w =
     (case responses w of
        [] \<Rightarrow> (Inl ConnectionError, w\<lparr>sent := sent w @ [\<lparr>url = u, headers = hs\<rparr>]\<rparr>)
      | r # rs \<Rightarrow> (Inr r, w\<lparr>responses := rs, sent := sent w @ [\<lparr>url = u, headers = hs\<rparr>]\<rparr>))"

definition response_json :: "response \<Rightarrow> py_error + json" where
  "response_json r = (case json_body r of None \<Rightarrow> Inl JSONDecodeError | Some j \<Rightarrow> Inr j)"

text \<open>
  \<^verbatim>\<open>str\<close> of an integer, as the f-string of line 16 formats the status code;
  \<open>number\<close> reads a string of the digits \<open>0\<close> to \<open>9\<close> back.
\<close>

definition is_digit :: "char \<Rightarrow> bool" where
  "is_digit c = (48 \<le> (of_char c :: nat) \<and> (of_char c :: nat) \<le> 57)"

definition digit_val :: "char \<Rightarrow> nat" where
  "digit_val c = of_char c - 48"

definition number :: "string \<Rightarrow> nat" where
  "number ds = foldl (\<lambda>n c. 10 * n + digit_val c) 0 ds"

fun str_nat :: "nat \<Rightarrow> string" where
  "str_nat n =
     (if n < 10 then [char_of (48 + n)]
      else str_nat (n div 10) @ [char_of (48 + n mod 10)])"

declare str_nat.simps [simp del]

definition py_str :: "int \<Rightarrow> string" where
  "py_str i = (if i < 0 then CHR ''-'' # str_nat (nat (- i)) else str_nat (nat i))"

definition github_headers :: "(string \<times> string) list" where
  "github_headers = [(''Accept'', ''application/vnd.github.v3+json'')]"

definition github_url :: string where
  "github_url = ''https://api.github.com/search/repositories?q=language:python&sort=stars&per_page=50''"

definition fetch_github_data :: "world \<Rightarrow> (py_error + json) \<times> world" where
  "fetch_github_data w =
     (case requests_get github_url github_headers w of
        (Inl e, w') \<Rightarrow> (Inl e, w')
      | (Inr r, w') \<Rightarrow>
          if status_code r = 200 then (response_json r, w')
          else (Inl (Exception (''API request failed with status code: '' @ py_str (status_code r))), w'))"

text \<open>
  \<^verbatim>\<open>main\<close> up to line 78: fetch, process, analyse, each stage entered only when the
  one before returned. The result is what line 78 leaves: the exception that ended the
  run, or the summary (\<open>None\<close> as for \<open>analyze_data\<close>). The printing and the charts of
  lines 80 to 94 format floating-point numbers and draw; they are not modelled.
\<close>

definition enter :: "string \<Rightarrow> world \<Rightarrow> world" where
  "enter stage w = w\<lparr>calls := calls w @ [stage]\<rparr>"

definition main :: "(nat \<Rightarrow> nat option) \<Rightarrow> world \<Rightarrow> (py_error + summary) option \<times> world" where
  "main nd w =
     (case fetch_github_data (enter ''fetch_github_data'' w) of
        (Inl e, w1) \<Rightarrow> (Some (Inl e), w1)
      | (Inr raw_data, w1) \<Rightarrow>
          (case process_data nd raw_data of
             Inl e \<Rightarrow> (Some (Inl e), enter ''process_data'' w1)
           | Inr df \<Rightarrow> (analyze_data df, enter ''analyze_data'' (enter ''process_data'' w1))))"

section \<open>The properties, as predicates\<close>

text \<open>
  A raw record is well formed when it has the seven fields \<^verbatim>\<open>process_data\<close> reads,
  the owner's login among them, and its creation timestamp is a string the format accepts.
\<close>

definition present :: "json \<Rightarrow> string \<Rightarrow> bool" where
  "present j k = (case j of JObj kvs \<Rightarrow> k \<in> set (map fst kvs) | _ \<Rightarrow> False)"

definition has_required_fields :: "json \<Rightarrow> bool" where
  "has_required_fields repo =
     (present repo ''name'' \<and> present repo ''stargazers_count'' \<and>
      present repo ''forks_count'' \<and> present repo ''open_issues_count'' \<and>
      present repo ''created_at'' \<and> present repo ''description'' \<and>
      present repo ''owner'' \<and>
      (case getitem repo ''owner'' of Inr ow \<Rightarrow> present ow ''login'' | Inl e \<Rightarrow> False))"

definition has_valid_timestamp :: "(nat \<Rightarrow> nat option) \<Rightarrow> json \<Rightarrow> bool" where
  "has_valid_timestamp nd repo =
     (case getitem repo ''created_at'' of
        Inr (JStr s) \<Rightarrow> strptime_year nd s \<noteq> None
      | _ \<Rightarrow> False)"

definition well_formed :: "(nat \<Rightarrow> nat option) \<Rightarrow> json \<Rightarrow> bool" where
  "well_formed nd repo = (has_required_fields repo \<and> has_valid_timestamp nd repo)"






text \<open>
  \<open>best\<close> is a top five of the table \<open>rows\<close> by the column \<open>col\<close>: it has five rows, or
  all of them when the table has fewer; each is a row of the table under its label, cut to
  its name, its value of the column and its owner; the values descend; and no row left out
  has a larger value than a row taken.
\<close>

definition top_five :: "(repo_row \<Rightarrow> json) \<Rightarrow> repo_row list \<Rightarrow> (nat \<times> top_row) list \<Rightarrow> bool" where
  "top_five col rows best =
     (length best = min 5 (length rows) \<and>
      (\<forall>it \<in> set best. fst it < length rows \<and>
         snd it = \<lparr>top_name = name (rows ! fst it), top_count = col (rows ! fst it),
                   top_owner = owner (rows ! fst it)\<rparr>) \<and>
      sorted_wrt (\<lambda>a b. int_of (top_count (snd b)) \<le> int_of (top_count (snd a))) best \<and>
      (\<forall>i \<in> {0..<length rows} - fst ` set best.
         \<forall>it \<in> set best. int_of (col (rows ! i)) \<le> int_of (top_count (snd it))))"

text \<open>
  Ties keep the order of the table: when the row labelled \<open>j\<close> is among \<open>best\<close>, every
  earlier row \<open>i\<close> of the same value is there too, at an earlier place.
\<close>

definition in_table_order :: "(repo_row \<Rightarrow> json) \<Rightarrow> repo_row list \<Rightarrow> (nat \<times> top_row) list \<Rightarrow> bool" where
  "in_table_order col rows best =
     (\<forall>j \<in> fst ` set best. \<forall>i \<in> {0..<j}.
        col (rows ! i) = col (rows ! j) \<longrightarrow>
        (\<exists>p q. p < q \<and> q < length best \<and> fst (best ! p) = i \<and> fst (best ! q) = j))"

text \<open>The order a stable descending sort leaves: by the key, then by the label.\<close>

definition ranked :: "(nat \<times> 'a \<Rightarrow> int) \<Rightarrow> nat \<times> 'a \<Rightarrow> nat \<times> 'a \<Rightarrow> bool" where
  "ranked f a b = (f a < f b \<or> (f a = f b \<and> fst a < fst b))"

section \<open>Sample data\<close>

text \<open>A raw record as the API returns it, with the fields the script reads.\<close>

definition raw_repo :: "string \<Rightarrow> int \<Rightarrow> int \<Rightarrow> string \<Rightarrow> json \<Rightarrow> json" where
  "raw_repo n s f c d =
     JObj [(''name'', JStr n), (''stargazers_count'', JInt s), (''forks_count'', JInt f),
           (''open_issues_count'', JInt 3), (''created_at'', JStr c), (''description'', d),
           (''owner'', JObj [(''login'', JStr (n @ ''-owner''))])]"

definition sample_repos :: "json list" where
  "sample_repos =
     [raw_repo ''a'' 100 10 ''2020-03-01T12:00:00Z'' (JStr ''first''),
      raw_repo ''b'' 50 5 ''2021-07-15T08:30:00Z'' JNull,
      raw_repo ''c'' 200 1 ''2019-11-30T23:59:59Z'' (JStr ''third'')]"

definition sample_body :: json where
  "sample_body = JObj [(''total_count'', JInt 3), (''items'', JArr sample_repos)]"

definition table_row :: "string \<Rightarrow> int \<Rightarrow> int \<Rightarrow> repo_row" where
  "table_row n s f =
     \<lparr>name = JStr n, stars = JInt s, forks = JInt f, issues = JInt 3, created_at = 2020,
      description = JNull, owner = JStr (n @ ''-owner'')\<rparr>"

definition sample_rows :: "repo_row list" where
  "sample_rows =
     [table_row ''a'' 100 10, table_row ''b'' 50 5, table_row ''c'' 200 1,
      table_row ''d'' 50 5, table_row ''e'' 100 7, table_row ''f'' 7 10,
      table_row ''g'' 50 0]"


definition overflow_rows :: "repo_row list" where
  "overflow_rows =
     [table_row ''x'' 4611686018427387904 2, table_row ''y'' 4611686018427387904 1]"



text \<open>A table of decimal digits beyond ASCII: the Arabic-Indic ones, from \<open>U+0660\<close>.\<close>

definition arabic_indic :: "nat \<Rightarrow> nat option" where
  "arabic_indic c = (if 1632 \<le> c \<and> c \<le> 1641 then Some (c - 1632) else None)"

definition online :: "response \<Rightarrow> world" where
  "online r = \<lparr>responses = [r], sent = [], calls = []\<rparr>"

section \<open>Raising and returning\<close>

lemma and_then_Inr_iff: "and_then r f = Inr y \<longleftrightarrow> (\<exists>v. r = Inr v \<and> f v = Inr y)"
  by (cases r) (simp_all add: and_then_def)


lemma getitem_present: "present j k \<longleftrightarrow> (\<exists>v. getitem j k = Inr v)"
  by (cases j) (force simp: present_def map_of_eq_None_iff dest: map_of_SomeD split: option.splits)+



lemma created_year_Inr:
  "(\<exists>y. created_year nd c = Inr y) \<longleftrightarrow> (case c of JStr s \<Rightarrow> strptime_year nd s \<noteq> None | _ \<Rightarrow> False)"
  by (cases c) (auto split: option.splits)

section \<open>The format and the matching\<close>









text \<open>
  The format is wider than the strict one: fields of one digit and lower-case letters
  are accepted, and so are digits of other scripts when the table knows them (here a
  year in Arabic-Indic digits, each two bytes of UTF-8).
\<close>

lemma strptime_year_strict: "strptime_year arabic_indic ''2020-03-01T12:00:00Z'' = Some 2020"
  by code_simp

lemma strptime_year_lenient: "strptime_year arabic_indic ''2020-3-1t1:2:3z'' = Some 2020"
  by code_simp

lemma strptime_year_arabic_indic:
  "strptime_year arabic_indic
     ([CHR 0xD9, CHR 0xA2, CHR 0xD9, CHR 0xA0, CHR 0xD9, CHR 0xA2, CHR 0xD9, CHR 0xA0] @
      ''-03-01T12:00:00Z'') = Some 2020"
  by code_simp

lemma strptime_year_rejects:
  "strptime_year arabic_indic ''2021-07-15 08:30:00'' = None"
  "strptime_year arabic_indic ''2021-02-29T08:30:00Z'' = None"
  "strptime_year arabic_indic ''2021-07-15T08:30:60Z'' = None"
  "strptime_year arabic_indic ''2021-07-15T08:30:00Z '' = None"
  by code_simp+

section \<open>One record\<close>

lemma make_row_Inr_iff: "(\<exists>row. make_row nd repo = Inr row) \<longleftrightarrow> well_formed nd repo"
  unfolding make_row_def well_formed_def has_required_fields_def has_valid_timestamp_def
    and_then_Inr_iff getitem_present
  by (auto split: sum.splits json.splits option.splits simp: created_year_Inr)



lemma make_row_fields:
  "make_row nd repo = Inr row \<Longrightarrow>
     getitem repo ''name'' = Inr (name row) \<and>
     getitem repo ''stargazers_count'' = Inr (stars row) \<and>
     getitem repo ''forks_count'' = Inr (forks row) \<and>
     getitem repo ''open_issues_count'' = Inr (issues row) \<and>
     and_then (getitem repo ''created_at'') (created_year nd) = Inr (created_at row) \<and>
     getitem repo ''description'' = Inr (description row) \<and>
     and_then (getitem repo ''owner'') (\<lambda>ow. getitem ow ''login'') = Inr (owner row)"
  unfolding make_row_def and_then_Inr_iff
  by auto

section \<open>The loop\<close>

lemma collect_ok:
  "\<forall>repo \<in> set repos. \<exists>row. make_row nd repo = Inr row \<Longrightarrow>
   \<exists>rows. collect nd repos acc = Inr (acc @ rows) \<and> length rows = length repos \<and>
          (\<forall>i < length repos. make_row nd (repos ! i) = Inr (rows ! i))"
proof (induction repos arbitrary: acc)
  case Nil
  then show ?case by simp
next
  case (Cons repo rest)
  from Cons.prems obtain row where row: "make_row nd repo = Inr row" by auto
  from Cons.prems have "\<forall>r \<in> set rest. \<exists>row. make_row nd r = Inr row" by simp
  from Cons.IH [OF this, of "acc @ [row]"] obtain rows where
    rows: "collect nd rest (acc @ [row]) = Inr ((acc @ [row]) @ rows)" "length rows = length rest"
      "\<forall>i < length rest. make_row nd (rest ! i) = Inr (rows ! i)" by blast
  have "\<forall>i < length (repo # rest). make_row nd ((repo # rest) ! i) = Inr ((row # rows) ! i)"
    using row rows(3) by (auto simp: nth_Cons split: nat.splits)
  with row rows(1,2) show ?case
    by (intro exI [of _ "row # rows"]) simp
qed


section \<open>The frame\<close>

lemma nth_pd_DataFrame: "i < length rows \<Longrightarrow> pd_DataFrame rows ! i = (i, rows ! i)"
  by (simp add: pd_DataFrame_def nth_enumerate_eq)

lemma length_pd_DataFrame: "length (pd_DataFrame rows) = length rows"
  by (simp add: pd_DataFrame_def)

lemma pd_DataFrame_Nil_iff: "pd_DataFrame rows = [] \<longleftrightarrow> rows = []"
  by (cases rows) (simp_all add: pd_DataFrame_def)

lemma in_pd_DataFrame:
  "ir \<in> set (pd_DataFrame rows) \<longleftrightarrow> fst ir < length rows \<and> snd ir = rows ! fst ir"
  by (cases ir) (auto simp: pd_DataFrame_def in_set_enumerate_eq)

lemma map_snd_pd_DataFrame: "map (\<lambda>ir. g (snd ir)) (pd_DataFrame rows) = map g rows"
proof -
  have "map (\<lambda>ir. g (snd ir)) (pd_DataFrame rows) = map g (map snd (pd_DataFrame rows))"
    by (simp add: comp_def)
  then show ?thesis by (simp add: pd_DataFrame_def)
qed

lemma process_data_items:
  "getitem data ''items'' = Inr (JArr repos) \<Longrightarrow>
   process_data nd data = and_then (collect nd repos []) (\<lambda>rows. Inr (pd_DataFrame rows))"
  by (simp add: process_data_def and_then_def)

lemma process_data_rows:
  assumes "getitem data ''items'' = Inr (JArr repos)"
    and "\<forall>repo \<in> set repos. well_formed nd repo"
  shows "\<exists>rows. process_data nd data = Inr (pd_DataFrame rows) \<and> length rows = length repos \<and>
    (\<forall>i < length repos. make_row nd (repos ! i) = Inr (rows ! i))"
proof -
  from assms(2) have "\<forall>repo \<in> set repos. \<exists>row. make_row nd repo = Inr row"
    by (simp add: make_row_Inr_iff)
  from collect_ok [OF this, of "[]"] obtain rows where
    rows: "collect nd repos [] = Inr rows" "length rows = length repos"
      "\<forall>i < length repos. make_row nd (repos ! i) = Inr (rows ! i)" by auto
  have "process_data nd data = Inr (pd_DataFrame rows)"
    using process_data_items [OF assms(1)] rows(1) by (simp add: and_then_def)
  with rows(2,3) show ?thesis by blast
qed


section \<open>The request\<close>

lemma fetch_github_data_response:
  assumes "responses w = r # rest"
  shows "fetch_github_data w =
    (if status_code r = 200 then response_json r
     else Inl (Exception (''API request failed with status code: '' @ py_str (status_code r))),
     w\<lparr>responses := rest, sent := sent w @ [\<lparr>url = github_url, headers = github_headers\<rparr>]\<rparr>)"
  using assms by (simp add: fetch_github_data_def requests_get_def)

lemma main_fetch_raises:
  assumes "responses w = r # rest" and "status_code r \<noteq> 200"
  shows "main nd w =
    (Some (Inl (Exception (''API request failed with status code: '' @ py_str (status_code r)))),
     w\<lparr>responses := rest, sent := sent w @ [\<lparr>url = github_url, headers = github_headers\<rparr>],
       calls := calls w @ [''fetch_github_data'']\<rparr>)"
proof -
  have "responses (enter ''fetch_github_data'' w) = r # rest"
    using assms(1) by (simp add: enter_def)
  from fetch_github_data_response [OF this] assms(2) show ?thesis
    by (simp add: main_def enter_def)
qed


section \<open>The status code in the message\<close>

lemma digit_val_char_of: "(d::nat) < 10 \<Longrightarrow> digit_val (char_of (48 + d)) = d"
  by (simp add: digit_val_def)

lemma is_digit_char_of: "(d::nat) < 10 \<Longrightarrow> is_digit (char_of (48 + d))"
  by (simp add: is_digit_def)

lemma number_snoc: "number (ds @ [c]) = 10 * number ds + digit_val c"
  by (simp add: number_def)

lemma number_str_nat: "number (str_nat n) = n"
proof (induction n rule: str_nat.induct)
  case (1 n)
  show ?case
  proof (cases "n < 10")
    case True
    then have "str_nat n = [char_of (48 + n)]" by (simp add: str_nat.simps)
    with True show ?thesis by (simp add: number_def digit_val_char_of)
  next
    case False
    then have "str_nat n = str_nat (n div 10) @ [char_of (48 + n mod 10)]"
      by (subst str_nat.simps) simp
    with False 1 show ?thesis by (simp add: number_snoc digit_val_char_of)
  qed
qed

lemma str_nat_digits: "c \<in> set (str_nat n) \<Longrightarrow> is_digit c"
proof (induction n rule: str_nat.induct)
  case (1 n)
  show ?case
  proof (cases "n < 10")
    case True
    then have "str_nat n = [char_of (48 + n)]" by (simp add: str_nat.simps)
    with True "1.prems" show ?thesis by (simp add: is_digit_char_of)
  next
    case False
    then have "str_nat n = str_nat (n div 10) @ [char_of (48 + n mod 10)]"
      by (subst str_nat.simps) simp
    with False 1 show ?thesis by (auto simp: is_digit_char_of)
  qed
qed

lemma str_nat_inject: "str_nat a = str_nat b \<Longrightarrow> a = b"
proof -
  assume "str_nat a = str_nat b"
  then have "number (str_nat a) = number (str_nat b)" by (rule arg_cong)
  then show ?thesis by (simp only: number_str_nat)
qed

lemma minus_not_in_str_nat: "CHR ''-'' # ds \<noteq> str_nat n"
proof
  assume "CHR ''-'' # ds = str_nat n"
  then have "CHR ''-'' \<in> set (str_nat n)" by (metis list.set_intros(1))
  then have "is_digit CHR ''-''" by (rule str_nat_digits)
  then show False by (simp add: is_digit_def)
qed

lemma py_str_inject: "py_str a = py_str b \<Longrightarrow> a = b"
proof -
  assume eq: "py_str a = py_str b"
  consider "a < 0" "b < 0" | "a < 0" "0 \<le> b" | "0 \<le> a" "b < 0" | "0 \<le> a" "0 \<le> b"
    by linarith
  then show ?thesis
  proof cases
    case 1
    with eq have "str_nat (nat (- a)) = str_nat (nat (- b))" by (simp add: py_str_def)
    then have "nat (- a) = nat (- b)" by (rule str_nat_inject)
    with 1 show ?thesis by simp
  next
    case 2
    with eq minus_not_in_str_nat show ?thesis by (simp add: py_str_def)
  next
    case 3
    with eq minus_not_in_str_nat [of "str_nat (nat (- b))" "nat a"] show ?thesis
      by (simp add: py_str_def)
  next
    case 4
    with eq have "str_nat (nat a) = str_nat (nat b)" by (simp add: py_str_def)
    then have "nat a = nat b" by (rule str_nat_inject)
    with 4 show ?thesis by simp
  qed
qed

lemma py_str_403: "py_str 403 = ''403''"
  by code_simp

section \<open>Fetching\<close>

text \<open>
  C3. A response whose status code is not 200 makes \<^verbatim>\<open>fetch_github_data\<close> raise the
  script's exception, whose message ends with the status code (and the message tells the
  status codes apart). One request has been sent and one response consumed: there is no
  second attempt. \<^verbatim>\<open>main\<close> ends with that exception, having entered
  \<^verbatim>\<open>fetch_github_data\<close> only: neither \<^verbatim>\<open>process_data\<close> nor \<^verbatim>\<open>analyze_data\<close>
  is called. The specification names this exception \<open>RemoteRequestError\<close>.
\<close>

theorem non_200_response_aborts:
  assumes "responses w = r # rest" and "status_code r \<noteq> 200"
  shows "fetch_github_data w =
      (Inl (Exception (''API request failed with status code: '' @ py_str (status_code r))),
       w\<lparr>responses := rest, sent := sent w @ [\<lparr>url = github_url, headers = github_headers\<rparr>]\<rparr>) \<and>
    main nd w =
      (Some (Inl (Exception (''API request failed with status code: '' @ py_str (status_code r)))),
       w\<lparr>responses := rest, sent := sent w @ [\<lparr>url = github_url, headers = github_headers\<rparr>],
         calls := calls w @ [''fetch_github_data'']\<rparr>) \<and>
    (\<forall>c. py_str c = py_str (status_code r) \<longrightarrow> c = status_code r)"
  using fetch_github_data_response [OF assms(1)] main_fetch_raises [OF assms] assms(2)
  by (auto dest: py_str_inject)

theorem non_200_response_aborts_witness:
  "responses (online \<lparr>status_code = 403, json_body = None\<rparr>) = [\<lparr>status_code = 403, json_body = None\<rparr>] \<and>
   status_code \<lparr>status_code = 403, json_body = None\<rparr> \<noteq> 200 \<and>
   main arabic_indic (online \<lparr>status_code = 403, json_body = None\<rparr>) =
     (Some (Inl (Exception ''API request failed with status code: 403'')),
      \<lparr>responses = [], sent = [\<lparr>url = github_url, headers = github_headers\<rparr>],
        calls = [''fetch_github_data'']\<rparr>)"
proof -
  let ?r = "\<lparr>status_code = 403, json_body = None\<rparr>"
  have h1: "responses (online ?r) = ?r # []" by (simp add: online_def)
  have h2: "status_code ?r \<noteq> 200" by simp
  from non_200_response_aborts [OF h1 h2] show ?thesis
    by (simp add: online_def py_str_403)
qed

text \<open>
  C5, as the code has it. On a response with status 200 \<^verbatim>\<open>fetch_github_data\<close> returns
  the parsed body itself, the enclosing JSON object; it is \<^verbatim>\<open>process_data\<close> that reads
  the \<open>items\<close> array out of it and loops over the array's records.
\<close>

theorem fetch_returns_parsed_body:
  assumes "responses w = r # rest" and "status_code r = 200" and "json_body r = Some body"
  shows "fst (fetch_github_data w) = Inr body \<and>
    (\<forall>repos. getitem body ''items'' = Inr (JArr repos) \<longrightarrow>
       process_data nd body = and_then (collect nd repos []) (\<lambda>rows. Inr (pd_DataFrame rows)))"
  using fetch_github_data_response [OF assms(1)] assms(2,3)
  by (simp add: response_json_def process_data_items)

theorem fetch_returns_parsed_body_witness:
  "responses (online \<lparr>status_code = 200, json_body = Some sample_body\<rparr>) =
     [\<lparr>status_code = 200, json_body = Some sample_body\<rparr>] \<and>
   fst (fetch_github_data (online \<lparr>status_code = 200, json_body = Some sample_body\<rparr>)) =
     Inr sample_body \<and>
   process_data arabic_indic sample_body = and_then (collect arabic_indic sample_repos []) (\<lambda>rows. Inr (pd_DataFrame rows))"
proof -
  let ?r = "\<lparr>status_code = 200, json_body = Some sample_body\<rparr>"
  have h1: "responses (online ?r) = ?r # []" by (simp add: online_def)
  have h2: "status_code ?r = 200" by simp
  have h3: "json_body ?r = Some sample_body" by simp
  have items: "getitem sample_body ''items'' = Inr (JArr sample_repos)"
    by (simp add: sample_body_def)
  from fetch_returns_parsed_body [OF h1 h2 h3] items h1 show ?thesis by blast
qed

text \<open>
  The claim of C5 as the specification words it, that the fetch returns the \<open>items\<close>
  array, fails on the sample body: what is returned is the object around the array.
\<close>

theorem fetch_returns_items_counterexample:
  "fst (fetch_github_data (online \<lparr>status_code = 200, json_body = Some sample_body\<rparr>)) \<noteq>
     Inr (JArr sample_repos)"
  by (simp add: fetch_github_data_def requests_get_def online_def response_json_def
      sample_body_def)

section \<open>Transforming\<close>

text \<open>
  C6. When every raw record of the \<open>items\<close> array is well formed, \<^verbatim>\<open>process_data\<close>
  returns a frame with one row per record, in the order of the array (row \<open>i\<close>, labelled
  \<open>i\<close>, comes from record \<open>i\<close>), and each field of the row is the value read from that
  record: the name, the three counts, the year of the creation timestamp, the description
  and the owner's login.
\<close>

theorem process_data_maps_records_in_order:
  assumes "getitem data ''items'' = Inr (JArr repos)"
    and "\<forall>repo \<in> set repos. well_formed nd repo"
  shows "\<exists>df. process_data nd data = Inr df \<and> length df = length repos \<and>
    (\<forall>i < length repos.
       fst (df ! i) = i \<and>
       getitem (repos ! i) ''name'' = Inr (name (snd (df ! i))) \<and>
       getitem (repos ! i) ''stargazers_count'' = Inr (stars (snd (df ! i))) \<and>
       getitem (repos ! i) ''forks_count'' = Inr (forks (snd (df ! i))) \<and>
       getitem (repos ! i) ''open_issues_count'' = Inr (issues (snd (df ! i))) \<and>
       and_then (getitem (repos ! i) ''created_at'') (created_year nd) =
         Inr (created_at (snd (df ! i))) \<and>
       getitem (repos ! i) ''description'' = Inr (description (snd (df ! i))) \<and>
       and_then (getitem (repos ! i) ''owner'') (\<lambda>ow. getitem ow ''login'') =
         Inr (owner (snd (df ! i))))"
proof -
  from process_data_rows [OF assms] obtain rows where
    rows: "process_data nd data = Inr (pd_DataFrame rows)" "length rows = length repos"
      "\<forall>i < length repos. make_row nd (repos ! i) = Inr (rows ! i)" by blast
  show ?thesis
  proof (intro exI [of _ "pd_DataFrame rows"] conjI allI impI)
    show "process_data nd data = Inr (pd_DataFrame rows)" by (rule rows(1))
    show "length (pd_DataFrame rows) = length repos"
      by (simp add: length_pd_DataFrame rows(2))
  next
    fix i assume i: "i < length repos"
    then have nth: "pd_DataFrame rows ! i = (i, rows ! i)"
      by (simp add: nth_pd_DataFrame rows(2))
    from rows(3) i have mk: "make_row nd (repos ! i) = Inr (rows ! i)" by simp
    note f = make_row_fields [OF mk]
    show "fst (pd_DataFrame rows ! i) = i" by (simp add: nth)
    show "getitem (repos ! i) ''name'' = Inr (name (snd (pd_DataFrame rows ! i)))"
      using f by (simp add: nth)
    show "getitem (repos ! i) ''stargazers_count'' = Inr (stars (snd (pd_DataFrame rows ! i)))"
      using f by (simp add: nth)
    show "getitem (repos ! i) ''forks_count'' = Inr (forks (snd (pd_DataFrame rows ! i)))"
      using f by (simp add: nth)
    show "getitem (repos ! i) ''open_issues_count'' = Inr (issues (snd (pd_DataFrame rows ! i)))"
      using f by (simp add: nth)
    show "and_then (getitem (repos ! i) ''created_at'') (created_year nd) =
        Inr (created_at (snd (pd_DataFrame rows ! i)))"
      using f by (simp add: nth)
    show "getitem (repos ! i) ''description'' = Inr (description (snd (pd_DataFrame rows ! i)))"
      using f by (simp add: nth)
    show "and_then (getitem (repos ! i) ''owner'') (\<lambda>ow. getitem ow ''login'') =
        Inr (owner (snd (pd_DataFrame rows ! i)))"
      using f by (simp add: nth)
  qed
qed

lemma sample_repos_well_formed: "list_all (well_formed arabic_indic) sample_repos"
  by code_simp

theorem process_data_maps_records_in_order_witness:
  "getitem sample_body ''items'' = Inr (JArr sample_repos) \<and>
   list_all (well_formed arabic_indic) sample_repos \<and>
   (\<exists>df. process_data arabic_indic sample_body = Inr df \<and> length df = 3 \<and>
      map fst df = [0, 1, 2] \<and>
      map (\<lambda>ir. name (snd ir)) df = [JStr ''a'', JStr ''b'', JStr ''c''] \<and>
      map (\<lambda>ir. stars (snd ir)) df = [JInt 100, JInt 50, JInt 200] \<and>
      map (\<lambda>ir. created_at (snd ir)) df = [2020, 2021, 2019])"
proof -
  have h1: "getitem sample_body ''items'' = Inr (JArr sample_repos)"
    by (simp add: sample_body_def)
  have h2: "\<forall>repo \<in> set sample_repos. well_formed arabic_indic repo"
    using sample_repos_well_formed by (simp add: list_all_iff)
  from process_data_maps_records_in_order [OF h1 h2] obtain df where
    df: "process_data arabic_indic sample_body = Inr df" "length df = length sample_repos" by blast
  have "process_data arabic_indic sample_body = Inr (pd_DataFrame
      [\<lparr>name = JStr ''a'', stars = JInt 100, forks = JInt 10, issues = JInt 3,
        created_at = 2020, description = JStr ''first'', owner = JStr ''a-owner''\<rparr>,
       \<lparr>name = JStr ''b'', stars = JInt 50, forks = JInt 5, issues = JInt 3,
        created_at = 2021, description = JNull, owner = JStr ''b-owner''\<rparr>,
       \<lparr>name = JStr ''c'', stars = JInt 200, forks = JInt 1, issues = JInt 3,
        created_at = 2019, description = JStr ''third'', owner = JStr ''c-owner''\<rparr>])"
    by code_simp
  with df have "df = [(0, \<lparr>name = JStr ''a'', stars = JInt 100, forks = JInt 10, issues = JInt 3,
        created_at = 2020, description = JStr ''first'', owner = JStr ''a-owner''\<rparr>),
       (1, \<lparr>name = JStr ''b'', stars = JInt 50, forks = JInt 5, issues = JInt 3,
        created_at = 2021, description = JNull, owner = JStr ''b-owner''\<rparr>),
       (2, \<lparr>name = JStr ''c'', stars = JInt 200, forks = JInt 1, issues = JInt 3,
        created_at = 2019, description = JStr ''third'', owner = JStr ''c-owner''\<rparr>)]"
    by (auto simp: pd_DataFrame_def numeral_2_eq_2)
  with df(1) h1 sample_repos_well_formed show ?thesis by simp
qed







text \<open>
  C10. A record whose description is present and \<^verbatim>\<open>None\<close> raises nothing: with the
  records of the array well formed, \<^verbatim>\<open>process_data\<close> returns the frame, and the row of
  that record has the description \<^verbatim>\<open>None\<close> and its other fields read from the record
  as for any other.
\<close>

theorem null_description_is_accepted:
  assumes "getitem data ''items'' = Inr (JArr repos)"
    and "\<forall>repo \<in> set repos. well_formed nd repo"
    and "i < length repos"
    and "getitem (repos ! i) ''description'' = Inr JNull"
  shows "\<exists>df. process_data nd data = Inr df \<and> length df = length repos \<and>
    description (snd (df ! i)) = JNull \<and>
    getitem (repos ! i) ''name'' = Inr (name (snd (df ! i))) \<and>
    getitem (repos ! i) ''stargazers_count'' = Inr (stars (snd (df ! i))) \<and>
    getitem (repos ! i) ''forks_count'' = Inr (forks (snd (df ! i))) \<and>
    getitem (repos ! i) ''open_issues_count'' = Inr (issues (snd (df ! i))) \<and>
    and_then (getitem (repos ! i) ''created_at'') (created_year nd) = Inr (created_at (snd (df ! i))) \<and>
    and_then (getitem (repos ! i) ''owner'') (\<lambda>ow. getitem ow ''login'') =
      Inr (owner (snd (df ! i)))"
proof -
  from process_data_rows [OF assms(1,2)] obtain rows where
    rows: "process_data nd data = Inr (pd_DataFrame rows)" "length rows = length repos"
      "\<forall>i < length repos. make_row nd (repos ! i) = Inr (rows ! i)" by blast
  from assms(3) have nth: "pd_DataFrame rows ! i = (i, rows ! i)"
    by (simp add: nth_pd_DataFrame rows(2))
  from rows(3) assms(3) have "make_row nd (repos ! i) = Inr (rows ! i)" by simp
  note f = make_row_fields [OF this]
  from f assms(4) have "description (rows ! i) = JNull" by simp
  with f rows(1,2) nth show ?thesis
    by (intro exI [of _ "pd_DataFrame rows"]) (simp add: length_pd_DataFrame)
qed

theorem null_description_is_accepted_witness:
  "getitem sample_body ''items'' = Inr (JArr sample_repos) \<and>
   list_all (well_formed arabic_indic) sample_repos \<and>
   getitem (sample_repos ! 1) ''description'' = Inr JNull \<and>
   (\<exists>df. process_data arabic_indic sample_body = Inr df \<and> length df = length sample_repos \<and>
      description (snd (df ! 1)) = JNull \<and>
      getitem (sample_repos ! 1) ''name'' = Inr (name (snd (df ! 1))) \<and>
      getitem (sample_repos ! 1) ''stargazers_count'' = Inr (stars (snd (df ! 1))))"
proof -
  have h1: "getitem sample_body ''items'' = Inr (JArr sample_repos)"
    by (simp add: sample_body_def)
  have h2: "\<forall>repo \<in> set sample_repos. well_formed arabic_indic repo"
    using sample_repos_well_formed by (simp add: list_all_iff)
  have h3: "1 < length sample_repos" by (simp add: sample_repos_def)
  have h4: "getitem (sample_repos ! 1) ''description'' = Inr JNull"
    by (simp add: sample_repos_def raw_repo_def)
  from null_description_is_accepted [OF h1 h2 h3 h4] h1 h4 sample_repos_well_formed
  show ?thesis by blast
qed

section \<open>Analysing\<close>

text \<open>
  C1, as the code has it. A frame with no row has no column, so the first entry of the
  summary that reads a column, \<^verbatim>\<open>df['stars']\<close>, raises \<open>KeyError\<close> for \<open>stars\<close>, and
  \<^verbatim>\<open>analyze_data\<close> ends with it: no summary is returned. The script has no check for an
  empty table and no exception of its own for one.
\<close>

theorem analyze_data_empty_table:
  "length df = 0 \<Longrightarrow>
   series df ''stars'' = Inl (KeyError ''stars'') \<and>
   analyze_data df = Some (Inl (KeyError ''stars''))"
  by (simp add: analyze_data_def series_def columns_def)

theorem analyze_data_empty_table_witness:
  "length (pd_DataFrame []) = 0 \<and>
   series (pd_DataFrame []) ''stars'' = Inl (KeyError ''stars'') \<and>
   analyze_data (pd_DataFrame []) = Some (Inl (KeyError ''stars''))"
proof -
  have h: "length (pd_DataFrame []) = 0" by (simp add: pd_DataFrame_def)
  from analyze_data_empty_table [OF h] h show ?thesis by simp
qed

text \<open>
  The claim of C1 as the specification words it fails on a run that fetches an empty
  \<open>items\<close> array: the exception that ends it is the \<open>KeyError\<close> of the column lookup,
  raised inside \<^verbatim>\<open>analyze_data\<close>.
\<close>

theorem empty_table_counterexample:
  "main arabic_indic (online \<lparr>status_code = 200, json_body = Some (JObj [(''items'', JArr [])])\<rparr>) =
     (Some (Inl (KeyError ''stars'')),
      \<lparr>responses = [], sent = [\<lparr>url = github_url, headers = github_headers\<rparr>],
        calls = [''fetch_github_data'', ''process_data'', ''analyze_data'']\<rparr>)"
  by code_simp

section \<open>The columns and the sort\<close>

lemma int64_cell_int_of: "int64_cell c = Some v \<Longrightarrow> v = int_of c \<and> in_int64 v \<and> c = JInt v"
  by (cases c) (auto split: if_splits)

lemma int64_values_map: "int64_values cs = Some vs \<Longrightarrow> vs = map int_of cs"
  by (induction cs arbitrary: vs) (auto split: option.splits dest: int64_cell_int_of)

lemma int64_values_cells: "int64_values cs = Some vs \<Longrightarrow> c \<in> set cs \<Longrightarrow> c = JInt (int_of c)"
  by (induction cs arbitrary: vs) (auto split: option.splits dest: int64_cell_int_of)

lemma cell_stars: "cell ''stars'' r = stars r"
  by (simp add: cell_def)

lemma cell_forks: "cell ''forks'' r = forks r"
  by (simp add: cell_def)

lemma cell_name: "cell ''name'' r = name r"
  by (simp add: cell_def)

lemma cell_owner: "cell ''owner'' r = owner r"
  by (simp add: cell_def)

lemma series_stars: "rows \<noteq> [] \<Longrightarrow> series (pd_DataFrame rows) ''stars'' = Inr (map stars rows)"
  unfolding series_def map_snd_pd_DataFrame
  by (simp add: columns_def pd_DataFrame_Nil_iff cell_stars [abs_def])

lemma series_forks: "rows \<noteq> [] \<Longrightarrow> series (pd_DataFrame rows) ''forks'' = Inr (map forks rows)"
  unfolding series_def map_snd_pd_DataFrame
  by (simp add: columns_def pd_DataFrame_Nil_iff cell_forks [abs_def])

lemma analyze_data_table:
  assumes "rows \<noteq> []"
    and "int64_values (map stars rows) = Some vs"
    and "int64_values (map forks rows) = Some ws"
  shows "analyze_data (pd_DataFrame rows) =
    Some (Inr \<lparr>total_repositories = length rows,
               total_stars = series_sum vs,
               most_starred = select3 ''stars'' (take 5 (sort_descending ''stars'' (pd_DataFrame rows))),
               most_forked = select3 ''forks'' (take 5 (sort_descending ''forks'' (pd_DataFrame rows)))\<rparr>)"
  using assms
  by (simp add: analyze_data_def nlargest_def series_stars series_forks length_pd_DataFrame)

text \<open>
  Sorting a frame with the default index by a key, stably, leaves it ordered by the key
  and, among equal keys, by the label: each row is inserted in front of the rows that
  follow it in the frame, whose labels are larger.
\<close>

lemma insort_ranked:
  "sorted_wrt (ranked f) ys \<Longrightarrow> \<forall>y \<in> set ys. fst x < fst y \<Longrightarrow>
   sorted_wrt (ranked f) (insort_key f x ys)"
proof (induction ys)
  case Nil
  then show ?case by simp
next
  case (Cons y ys)
  show ?case
  proof (cases "f x \<le> f y")
    case True
    have "ranked f x z" if "z \<in> set (y # ys)" for z
    proof -
      have "f y \<le> f z" using that Cons.prems(1) by (auto simp: ranked_def)
      moreover have "fst x < fst z" using that Cons.prems(2) by auto
      ultimately show ?thesis using True by (auto simp: ranked_def)
    qed
    with True Cons.prems(1) show ?thesis by simp
  next
    case False
    then have "ranked f y x" by (simp add: ranked_def)
    moreover have "sorted_wrt (ranked f) (insort_key f x ys)"
      using Cons by simp
    ultimately show ?thesis using False Cons.prems(1) by (auto simp: set_insort_key)
  qed
qed

lemma sort_enumerate_ranked: "sorted_wrt (ranked f) (sort_key f (enumerate n xs))"
proof (induction xs arbitrary: n)
  case Nil
  then show ?case by simp
next
  case (Cons x xs)
  have "\<forall>y \<in> set (sort_key f (enumerate (Suc n) xs)). fst (n, x) < fst y"
    by (auto simp: in_set_enumerate_eq)
  from insort_ranked [OF Cons.IH this] show ?case by simp
qed

lemma set_sort_descending: "set (sort_descending k df) = set df"
  by (simp add: sort_descending_def)

lemma length_sort_descending: "length (sort_descending k df) = length df"
  by (simp add: sort_descending_def)

lemma sorted_sort_descending:
  "sorted_wrt (\<lambda>a b. int_of (cell k (snd b)) \<le> int_of (cell k (snd a))) (sort_descending k df)"
proof -
  have "sorted (map (\<lambda>ir. - int_of (cell k (snd ir))) (sort_descending k df))"
    unfolding sort_descending_def by (rule sorted_sort_key)
  then show ?thesis by (simp add: sorted_map)
qed

lemma ranked_sort_descending:
  "sorted_wrt (ranked (\<lambda>ir. - int_of (cell k (snd ir)))) (sort_descending k (pd_DataFrame rows))"
  unfolding sort_descending_def pd_DataFrame_def by (rule sort_enumerate_ranked)

lemma select3_nth:
  "p < length df \<Longrightarrow> select3 k df ! p =
     (fst (df ! p), \<lparr>top_name = name (snd (df ! p)), top_count = cell k (snd (df ! p)),
                     top_owner = owner (snd (df ! p))\<rparr>)"
  by (simp add: select3_def cell_name cell_owner)

lemma length_select3: "length (select3 k df) = length df"
  by (simp add: select3_def)

lemma fst_set_select3: "fst ` set (select3 k df) = fst ` set df"
  by (force simp: select3_def)

text \<open>The first five rows of the sorted frame, cut to three columns.\<close>

lemma top_five_nlargest:
  assumes col: "\<And>r. cell k r = col r"
  shows "top_five col rows (select3 k (take 5 (sort_descending k (pd_DataFrame rows))))"
proof -
  define L where "L = sort_descending k (pd_DataFrame rows)"
  define best where "best = select3 k (take 5 L)"
  have setL: "set L = set (pd_DataFrame rows)" by (simp add: L_def set_sort_descending)
  have lenL: "length L = length rows"
    by (simp add: L_def length_sort_descending length_pd_DataFrame)
  have srt: "sorted_wrt (\<lambda>a b. int_of (col (snd b)) \<le> int_of (col (snd a))) L"
    using sorted_sort_descending [of k "pd_DataFrame rows"] by (simp add: L_def col)
  have mem: "fst ir < length rows \<and> snd ir = rows ! fst ir" if "ir \<in> set (take 5 L)" for ir
    using that setL in_set_takeD [of ir 5 L] by (simp add: in_pd_DataFrame)
  have best_eq: "best = map (\<lambda>ir. (fst ir, \<lparr>top_name = name (snd ir), top_count = col (snd ir),
      top_owner = owner (snd ir)\<rparr>)) (take 5 L)"
    by (simp add: best_def select3_def cell_name cell_owner col)
  have 1: "length best = min 5 (length rows)"
    by (simp add: best_eq lenL min.commute)
  have 2: "\<forall>it \<in> set best. fst it < length rows \<and>
      snd it = \<lparr>top_name = name (rows ! fst it), top_count = col (rows ! fst it),
                top_owner = owner (rows ! fst it)\<rparr>"
    using mem by (auto simp: best_eq)
  have "sorted_wrt (\<lambda>a b. int_of (col (snd b)) \<le> int_of (col (snd a))) (take 5 L)"
    using srt by (rule sorted_wrt_take)
  then have 3: "sorted_wrt (\<lambda>a b. int_of (top_count (snd b)) \<le> int_of (top_count (snd a))) best"
    by (simp add: best_eq sorted_wrt_map)
  have 4: "\<forall>i \<in> {0..<length rows} - fst ` set best.
      \<forall>it \<in> set best. int_of (col (rows ! i)) \<le> int_of (top_count (snd it))"
  proof (intro ballI)
    fix i it
    assume i: "i \<in> {0..<length rows} - fst ` set best" and it: "it \<in> set best"
    from it obtain x where x: "x \<in> set (take 5 L)" "top_count (snd it) = col (snd x)"
      by (auto simp: best_eq)
    have "fst ` set best = fst ` set (take 5 L)" by (force simp: best_eq)
    with i have notin: "(i, rows ! i) \<notin> set (take 5 L)" by force
    from i have "(i, rows ! i) \<in> set L" by (simp add: setL in_pd_DataFrame)
    then have "(i, rows ! i) \<in> set (take 5 L) \<union> set (drop 5 L)"
      by (simp only: set_append [symmetric] append_take_drop_id)
    with notin have y: "(i, rows ! i) \<in> set (drop 5 L)" by simp
    have "sorted_wrt (\<lambda>a b. int_of (col (snd b)) \<le> int_of (col (snd a))) (take 5 L @ drop 5 L)"
      using srt by simp
    then have "int_of (col (snd (i, rows ! i))) \<le> int_of (col (snd x))"
      using x(1) y unfolding sorted_wrt_append by blast
    then show "int_of (col (rows ! i)) \<le> int_of (top_count (snd it))"
      by (simp add: x(2))
  qed
  from 1 2 3 4 show ?thesis
    unfolding top_five_def best_def L_def by blast
qed

lemma in_table_order_nlargest:
  assumes col: "\<And>r. cell k r = col r"
  shows "in_table_order col rows (select3 k (take 5 (sort_descending k (pd_DataFrame rows))))"
  unfolding in_table_order_def
proof (intro ballI impI)
  define L where "L = sort_descending k (pd_DataFrame rows)"
  define f where "f = (\<lambda>ir :: nat \<times> repo_row. - int_of (cell k (snd ir)))"
  fix j i
  assume j: "j \<in> fst ` set (select3 k (take 5 (sort_descending k (pd_DataFrame rows))))"
    and i: "i \<in> {0..<j}" and eq: "col (rows ! i) = col (rows ! j)"
  have setL: "set L = set (pd_DataFrame rows)" by (simp add: L_def set_sort_descending)
  have rk: "sorted_wrt (ranked f) L"
    unfolding L_def f_def by (rule ranked_sort_descending)
  from j have "j \<in> fst ` set (take 5 L)" by (simp add: fst_set_select3 L_def)
  then obtain b where b: "b \<in> set (take 5 L)" "fst b = j" by auto
  from b(1) obtain q where q: "q < length (take 5 L)" "take 5 L ! q = b"
    by (auto simp: in_set_conv_nth)
  then have q5: "q < 5" and qL: "q < length L" and Lq: "L ! q = b" by simp_all
  from b(1) have "b \<in> set L" by (rule in_set_takeD)
  then have bj: "j < length rows" "snd b = rows ! j"
    using b(2) by (simp_all add: setL in_pd_DataFrame)
  from i bj(1) have "(i, rows ! i) \<in> set L" by (simp add: setL in_pd_DataFrame)
  then obtain p where p: "p < length L" "L ! p = (i, rows ! i)"
    by (auto simp: in_set_conv_nth)
  have feq: "f (i, rows ! i) = f b"
    using eq bj(2) by (simp add: f_def col)
  have "p \<noteq> q" using p(2) Lq b(2) i by auto
  moreover have "\<not> q < p"
  proof
    assume "q < p"
    with rk p(1) have "ranked f (L ! q) (L ! p)" by (simp add: sorted_wrt_iff_nth_less)
    then show False using feq p(2) Lq b(2) i by (auto simp: ranked_def)
  qed
  ultimately have pq: "p < q" by simp
  let ?best = "select3 k (take 5 (sort_descending k (pd_DataFrame rows)))"
  have len: "length ?best = length (take 5 L)" by (simp add: length_select3 L_def)
  have "fst (?best ! p) = i"
    using pq q(1) p(2) select3_nth [of p "take 5 L" k] by (simp add: L_def)
  moreover have "fst (?best ! q) = j"
    using q b(2) select3_nth [of q "take 5 L" k] by (simp add: L_def)
  ultimately show "\<exists>p q. p < q \<and> q < length ?best \<and> fst (?best ! p) = i \<and> fst (?best ! q) = j"
    using pq q(1) len by auto
qed

lemma wrap64_in_range: "in_int64 i \<Longrightarrow> wrap64 i = i"
  by (simp add: wrap64_def in_int64_def)

section \<open>The summary\<close>

text \<open>
  The tables of the following theorems are the frames \<^verbatim>\<open>pd.DataFrame\<close> builds from at
  least one row whose star and fork counts are integers of the \<^verbatim>\<open>int64\<close> range, as
  the counts of the API are.
\<close>

text \<open>
  C2. On every such table \<^verbatim>\<open>analyze_data\<close> returns a summary whose
  \<open>total_repositories\<close> is the number of rows and whose \<open>most_starred\<close> and
  \<open>most_forked\<close> are each a top five of the table: of length
  \<open>min 5 total_repositories\<close>, made of rows of the table, descending in the stars
  (the forks), and with no row left out that has more stars (forks) than a row taken.
\<close>

theorem analyze_data_top_five:
  assumes "rows \<noteq> []"
    and "int64_values (map stars rows) = Some vs"
    and "int64_values (map forks rows) = Some ws"
  shows "\<exists>s. analyze_data (pd_DataFrame rows) = Some (Inr s) \<and>
    total_repositories s = length rows \<and>
    length (most_starred s) = min 5 (total_repositories s) \<and>
    length (most_forked s) = min 5 (total_repositories s) \<and>
    top_five stars rows (most_starred s) \<and>
    top_five forks rows (most_forked s)"
proof -
  have s: "top_five stars rows (select3 ''stars'' (take 5 (sort_descending ''stars'' (pd_DataFrame rows))))"
    by (rule top_five_nlargest) (rule cell_stars)
  have f: "top_five forks rows (select3 ''forks'' (take 5 (sort_descending ''forks'' (pd_DataFrame rows))))"
    by (rule top_five_nlargest) (rule cell_forks)
  from s have ls: "length (select3 ''stars'' (take 5 (sort_descending ''stars'' (pd_DataFrame rows)))) =
      min 5 (length rows)"
    unfolding top_five_def by (rule conjunct1)
  from f have lf: "length (select3 ''forks'' (take 5 (sort_descending ''forks'' (pd_DataFrame rows)))) =
      min 5 (length rows)"
    unfolding top_five_def by (rule conjunct1)
  from s f ls lf show ?thesis
    unfolding analyze_data_table [OF assms] by simp
qed

lemma sample_rows_columns:
  "sample_rows \<noteq> []"
  "int64_values (map stars sample_rows) = Some [100, 50, 200, 50, 100, 7, 50]"
  "int64_values (map forks sample_rows) = Some [10, 5, 1, 5, 7, 10, 0]"
  by (simp_all add: sample_rows_def table_row_def in_int64_def)

lemma analyze_data_sample_rows:
  "analyze_data (pd_DataFrame sample_rows) =
     Some (Inr \<lparr>total_repositories = 7, total_stars = 557,
       most_starred =
         [(2, \<lparr>top_name = JStr ''c'', top_count = JInt 200, top_owner = JStr ''c-owner''\<rparr>),
          (0, \<lparr>top_name = JStr ''a'', top_count = JInt 100, top_owner = JStr ''a-owner''\<rparr>),
          (4, \<lparr>top_name = JStr ''e'', top_count = JInt 100, top_owner = JStr ''e-owner''\<rparr>),
          (1, \<lparr>top_name = JStr ''b'', top_count = JInt 50, top_owner = JStr ''b-owner''\<rparr>),
          (3, \<lparr>top_name = JStr ''d'', top_count = JInt 50, top_owner = JStr ''d-owner''\<rparr>)],
       most_forked =
         [(0, \<lparr>top_name = JStr ''a'', top_count = JInt 10, top_owner = JStr ''a-owner''\<rparr>),
          (5, \<lparr>top_name = JStr ''f'', top_count = JInt 10, top_owner = JStr ''f-owner''\<rparr>),
          (4, \<lparr>top_name = JStr ''e'', top_count = JInt 7, top_owner = JStr ''e-owner''\<rparr>),
          (1, \<lparr>top_name = JStr ''b'', top_count = JInt 5, top_owner = JStr ''b-owner''\<rparr>),
          (3, \<lparr>top_name = JStr ''d'', top_count = JInt 5, top_owner = JStr ''d-owner''\<rparr>)]\<rparr>)"
  by code_simp

theorem analyze_data_top_five_witness:
  "sample_rows \<noteq> [] \<and>
   int64_values (map stars sample_rows) = Some [100, 50, 200, 50, 100, 7, 50] \<and>
   int64_values (map forks sample_rows) = Some [10, 5, 1, 5, 7, 10, 0] \<and>
   (\<exists>s. analyze_data (pd_DataFrame sample_rows) = Some (Inr s) \<and>
      total_repositories s = 7 \<and>
      map fst (most_starred s) = [2, 0, 4, 1, 3] \<and>
      map fst (most_forked s) = [0, 5, 4, 1, 3] \<and>
      top_five stars sample_rows (most_starred s) \<and>
      top_five forks sample_rows (most_forked s))"
proof -
  from analyze_data_top_five [OF sample_rows_columns] obtain s where
    s: "analyze_data (pd_DataFrame sample_rows) = Some (Inr s)"
      "top_five stars sample_rows (most_starred s)"
      "top_five forks sample_rows (most_forked s)" by blast
  from s(1) have "total_repositories s = 7" "map fst (most_starred s) = [2, 0, 4, 1, 3]"
      "map fst (most_forked s) = [0, 5, 4, 1, 3]"
    unfolding analyze_data_sample_rows by auto
  with s sample_rows_columns show ?thesis
    by - (intro conjI exI [of _ s]; assumption)
qed

text \<open>
  C9. On every such table the selection keeps the order of the table among equal values:
  when a row is among \<open>most_starred\<close>, every earlier row of the table with the same
  stars is among them too, at an earlier place; and the same for \<open>most_forked\<close> and the
  forks.
\<close>

theorem analyze_data_ties_in_table_order:
  assumes "rows \<noteq> []"
    and "int64_values (map stars rows) = Some vs"
    and "int64_values (map forks rows) = Some ws"
  shows "\<exists>s. analyze_data (pd_DataFrame rows) = Some (Inr s) \<and>
    in_table_order stars rows (most_starred s) \<and>
    in_table_order forks rows (most_forked s)"
proof -
  have s: "in_table_order stars rows
      (select3 ''stars'' (take 5 (sort_descending ''stars'' (pd_DataFrame rows))))"
    by (rule in_table_order_nlargest) (rule cell_stars)
  have f: "in_table_order forks rows
      (select3 ''forks'' (take 5 (sort_descending ''forks'' (pd_DataFrame rows))))"
    by (rule in_table_order_nlargest) (rule cell_forks)
  from s f show ?thesis
    unfolding analyze_data_table [OF assms] by simp
qed

theorem analyze_data_ties_in_table_order_witness:
  "sample_rows \<noteq> [] \<and>
   int64_values (map stars sample_rows) = Some [100, 50, 200, 50, 100, 7, 50] \<and>
   int64_values (map forks sample_rows) = Some [10, 5, 1, 5, 7, 10, 0] \<and>
   (\<exists>s. analyze_data (pd_DataFrame sample_rows) = Some (Inr s) \<and>
      map fst (most_starred s) = [2, 0, 4, 1, 3] \<and>
      in_table_order stars sample_rows (most_starred s) \<and>
      in_table_order forks sample_rows (most_forked s))"
proof -
  from analyze_data_ties_in_table_order [OF sample_rows_columns] obtain s where
    s: "analyze_data (pd_DataFrame sample_rows) = Some (Inr s)"
      "in_table_order stars sample_rows (most_starred s)"
      "in_table_order forks sample_rows (most_forked s)" by blast
  from s(1) have "map fst (most_starred s) = [2, 0, 4, 1, 3]"
    unfolding analyze_data_sample_rows by auto
  with s sample_rows_columns show ?thesis
    by - (intro conjI exI [of _ s]; assumption)
qed

text \<open>
  C7, as the code has it. On every such table \<open>total_stars\<close> is the sum of the stars of
  all rows reduced to 64-bit two's complement, as \<^verbatim>\<open>Series.sum\<close> of an \<^verbatim>\<open>int64\<close>
  column computes it; it is the exact sum whenever that sum is in the \<^verbatim>\<open>int64\<close> range.
\<close>

theorem analyze_data_total_stars:
  assumes "rows \<noteq> []"
    and "int64_values (map stars rows) = Some vs"
    and "int64_values (map forks rows) = Some ws"
  shows "\<exists>s. analyze_data (pd_DataFrame rows) = Some (Inr s) \<and>
    total_stars s = wrap64 (\<Sum>r\<leftarrow>rows. int_of (stars r)) \<and>
    (in_int64 (\<Sum>r\<leftarrow>rows. int_of (stars r)) \<longrightarrow>
       total_stars s = (\<Sum>r\<leftarrow>rows. int_of (stars r)))"
proof -
  from int64_values_map [OF assms(2)] have "vs = map (\<lambda>r. int_of (stars r)) rows"
    by (simp add: comp_def)
  then show ?thesis
    unfolding analyze_data_table [OF assms]
    by (simp add: series_sum_def wrap64_in_range)
qed

theorem analyze_data_total_stars_witness:
  "sample_rows \<noteq> [] \<and>
   int64_values (map stars sample_rows) = Some [100, 50, 200, 50, 100, 7, 50] \<and>
   int64_values (map forks sample_rows) = Some [10, 5, 1, 5, 7, 10, 0] \<and>
   in_int64 (\<Sum>r\<leftarrow>sample_rows. int_of (stars r)) \<and>
   (\<Sum>r\<leftarrow>sample_rows. int_of (stars r)) = 557 \<and>
   (\<exists>s. analyze_data (pd_DataFrame sample_rows) = Some (Inr s) \<and> total_stars s = 557)"
proof -
  have sum: "(\<Sum>r\<leftarrow>sample_rows. int_of (stars r)) = 557"
    by (simp add: sample_rows_def table_row_def)
  then have rng: "in_int64 (\<Sum>r\<leftarrow>sample_rows. int_of (stars r))"
    by (simp add: in_int64_def)
  from analyze_data_total_stars [OF sample_rows_columns] rng sum
  have "\<exists>s. analyze_data (pd_DataFrame sample_rows) = Some (Inr s) \<and> total_stars s = 557"
    by auto
  with sample_rows_columns rng sum show ?thesis by blast
qed

text \<open>
  The claim of C7 as the specification words it, the exact integer sum, fails on a table
  of two rows with \<open>2^62\<close> stars each: the exact sum is \<open>2^63\<close>, and \<open>total_stars\<close>
  is \<open>- 2^63\<close>.
\<close>

theorem total_stars_exact_sum_counterexample:
  "overflow_rows \<noteq> [] \<and>
   int64_values (map stars overflow_rows) = Some [4611686018427387904, 4611686018427387904] \<and>
   (\<Sum>r\<leftarrow>overflow_rows. int_of (stars r)) = 9223372036854775808 \<and>
   (case analyze_data (pd_DataFrame overflow_rows) of
      Some (Inr s) \<Rightarrow> total_stars s = - 9223372036854775808
    | _ \<Rightarrow> False)"
  by code_simp

end
